theory Spec2Isabelle
  imports Complex_Main "HOL-Library.Char_ord" "HOL-Library.List_Lexorder"
begin

section \<open>The currency converter of \<^verbatim>\<open>app.py\<close>\<close>

text \<open>
  The module keeps one cache slot, fetches rate tables over HTTP from two mirrors and
  converts an amount between two currency codes. The embedding follows the source
  function by function, under the source's names without their leading underscore. Its
  conventions:
  \<^item> a rate is a \<^typ>\<open>real\<close>, and the division and the multiplication of lines 71, 77
    and 78 are exact: the rounding and the overflow of binary64 arithmetic are outside
    the model, and so is the rounding to six decimals of the display strings. The check
    of the amount is modelled in full: \<^verbatim>\<open>float\<close> rounds what it reads to binary64, and
    the amount may be infinite or not a number;
  \<^item> \<^verbatim>\<open>str\<close> is \<^typ>\<open>string\<close>; case mapping and whitespace are the ASCII ones;
  \<^item> an exception is a value \<open>Inl e\<close> of a sum type, and a function that may raise
    returns its result together with the state it leaves behind;
  \<^item> the state is the module's \<^verbatim>\<open>_cache\<close> dictionary and the list of URLs requested
    so far; the clock reading and the network are parameters of every call.
\<close>

subsection \<open>Strings\<close>

text \<open>\<^verbatim>\<open>str.lower\<close>, \<^verbatim>\<open>str.upper\<close> and \<^verbatim>\<open>str.strip\<close> on ASCII text.\<close>

definition lower_char :: "char \<Rightarrow> char" where
  "lower_char c =
     (case map_of (zip ''ABCDEFGHIJKLMNOPQRSTUVWXYZ'' ''abcdefghijklmnopqrstuvwxyz'') c of
        Some d \<Rightarrow> d | None \<Rightarrow> c)"

definition upper_char :: "char \<Rightarrow> char" where
  "upper_char c =
     (case map_of (zip ''abcdefghijklmnopqrstuvwxyz'' ''ABCDEFGHIJKLMNOPQRSTUVWXYZ'') c of
        Some d \<Rightarrow> d | None \<Rightarrow> c)"

definition lower :: "string \<Rightarrow> string" where
  "lower s = map lower_char s"

definition upper :: "string \<Rightarrow> string" where
  "upper s = map upper_char s"

text \<open>The ASCII characters for which \<^verbatim>\<open>str.isspace\<close> holds: codes 9 to 13, 28 to 31, 32.\<close>

definition is_space :: "char \<Rightarrow> bool" where
  "is_space c = ((of_char c :: nat) \<in> {9, 10, 11, 12, 13, 28, 29, 30, 31, 32})"

definition strip :: "string \<Rightarrow> string" where
  "strip s = rev (dropWhile is_space (rev (dropWhile is_space s)))"

subsection \<open>Values\<close>

text \<open>
  The argument \<^verbatim>\<open>amount\<close> of \<^verbatim>\<open>convert\<close> is any Python value; the ones modelled are
  \<^verbatim>\<open>None\<close>, a number that \<^verbatim>\<open>float\<close> returns with its value unchanged, and a string.
  A currency code is \<^verbatim>\<open>None\<close> or a string (\<^typ>\<open>string option\<close>).
\<close>

datatype pyval = PyNone | PyNum real | PyStr string

text \<open>The exceptions that the modelled code can raise.\<close>

datatype exn = RuntimeError | AttributeError | ZeroDivisionError

text \<open>
  A Python float is finite, with a real value, or one of the two infinities, or not a
  number. The two zeros are the one value 0: they compare equal, and \<^verbatim>\<open>-0.0 < 0\<close> is
  false.
\<close>

datatype pyfloat = Finite real | PosInf | NegInf | NaN

text \<open>\<^verbatim>\<open>x < 0\<close> and \<^verbatim>\<open>-x\<close> on floats, and \<^verbatim>\<open>x * r\<close> for a finite \<open>r\<close>.\<close>

fun is_negative :: "pyfloat \<Rightarrow> bool" where
  "is_negative (Finite x) = (x < 0)"
| "is_negative NegInf = True"
| "is_negative PosInf = False"
| "is_negative NaN = False"

fun negate :: "pyfloat \<Rightarrow> pyfloat" where
  "negate (Finite x) = Finite (- x)"
| "negate PosInf = NegInf"
| "negate NegInf = PosInf"
| "negate NaN = NaN"

fun times_rate :: "pyfloat \<Rightarrow> real \<Rightarrow> pyfloat" where
  "times_rate (Finite x) r = Finite (x * r)"
| "times_rate PosInf r = (if 0 < r then PosInf else if r < 0 then NegInf else NaN)"
| "times_rate NegInf r = (if 0 < r then NegInf else if r < 0 then PosInf else NaN)"
| "times_rate NaN r = NaN"

text \<open>
  Rounding of a real \<^verbatim>\<open>a >= 0\<close> to the nearest binary64 float, ties to the even
  significand, as \<^verbatim>\<open>float\<close> rounds the decimal number it reads. The exponent \<^verbatim>\<open>e\<close>
  is the one with \<^verbatim>\<open>2^e <= a < 2^(e+1)\<close>, kept between -1022 (below it the floats are
  subnormal) and 1023. The floats of that exponent are the multiples of
  \<^verbatim>\<open>2^(e-52)\<close>, and a result of \<^verbatim>\<open>2^1024\<close> or more is infinity.
\<close>

definition pow2 :: "int \<Rightarrow> real" where
  "pow2 k = (if 0 \<le> k then 2 ^ nat k else 1 / 2 ^ nat (- k))"

function exp_up :: "real \<Rightarrow> int \<Rightarrow> int" where
  "exp_up a e = (if e < 1023 \<and> pow2 (e + 1) \<le> a then exp_up a (e + 1) else e)"
  by pat_completeness auto
termination
  by (relation "measure (\<lambda>(a, e). nat (1023 - e))") auto

function exp_down :: "real \<Rightarrow> int \<Rightarrow> int" where
  "exp_down a e = (if - 1022 < e \<and> a < pow2 e then exp_down a (e - 1) else e)"
  by pat_completeness auto
termination
  by (relation "measure (\<lambda>(a, e). nat (e + 1022))") auto

definition b64_exponent :: "real \<Rightarrow> int" where
  "b64_exponent a = (if 1 \<le> a then exp_up a 0 else exp_down a (- 1))"

definition round_half_even :: "real \<Rightarrow> int" where
  "round_half_even x =
     (let f = \<lfloor>x\<rfloor>; r = x - of_int f
      in if r < 1 / 2 then f
         else if 1 / 2 < r then f + 1
         else if even f then f else f + 1)"

definition round_b64 :: "real \<Rightarrow> pyfloat" where
  "round_b64 a =
     (let q = pow2 (b64_exponent a - 52);
          r = of_int (round_half_even (a / q)) * q
      in if pow2 1024 \<le> r then PosInf else Finite r)"

text \<open>
  \<^verbatim>\<open>float(s)\<close> for a string. The blanks that \<^verbatim>\<open>float\<close> drops around an ASCII string are
  the codes 9 to 13 and 32 (not 28 to 31, which \<^verbatim>\<open>str.strip\<close> drops). After an optional
  sign come \<^verbatim>\<open>inf\<close>, \<^verbatim>\<open>infinity\<close> or \<^verbatim>\<open>nan\<close> in any case, or a decimal number
  (\<^verbatim>\<open>12\<close>, \<^verbatim>\<open>12.\<close>, \<^verbatim>\<open>12.5\<close>, \<^verbatim>\<open>.5\<close>) with an optional exponent, where a run of digits
  may hold single underscores between digits; the number is rounded to a float.
  Anything else raises \<^verbatim>\<open>ValueError\<close> (\<open>None\<close>).
\<close>

definition is_float_blank :: "char \<Rightarrow> bool" where
  "is_float_blank c = ((of_char c :: nat) \<in> {9, 10, 11, 12, 13, 32})"

definition float_strip :: "string \<Rightarrow> string" where
  "float_strip s = rev (dropWhile is_float_blank (rev (dropWhile is_float_blank s)))"

definition is_digit :: "char \<Rightarrow> bool" where
  "is_digit c = (48 \<le> (of_char c :: nat) \<and> (of_char c :: nat) \<le> 57)"

fun digitpart :: "string \<Rightarrow> bool" where
  "digitpart [] = False"
| "digitpart [c] = is_digit c"
| "digitpart (c # d # s) =
     (is_digit c \<and> (if d = CHR ''_'' then digitpart s else digitpart (d # s)))"

definition digits_val :: "string \<Rightarrow> int" where
  "digits_val s = foldl (\<lambda>n c. 10 * n + (of_char c - 48)) 0 (filter is_digit s)"

definition split_sign :: "string \<Rightarrow> bool \<times> string" where
  "split_sign s =
     (case s of
        [] \<Rightarrow> (False, [])
      | c # cs \<Rightarrow>
          if c = CHR ''-'' then (True, cs)
          else if c = CHR ''+'' then (False, cs)
          else (False, s))"

definition parse_number :: "string \<Rightarrow> real option" where
  "parse_number s =
     (let ip = takeWhile (\<lambda>c. c \<noteq> CHR ''.'') s; r = dropWhile (\<lambda>c. c \<noteq> CHR ''.'') s
      in case r of
           [] \<Rightarrow> if digitpart ip then Some (of_int (digits_val ip)) else None
         | _ # fp \<Rightarrow>
             if (ip = [] \<or> digitpart ip) \<and> (fp = [] \<or> digitpart fp) \<and> (ip \<noteq> [] \<or> fp \<noteq> [])
             then Some (of_int (digits_val ip)
                        + of_int (digits_val fp) / 10 ^ length (filter is_digit fp))
             else None)"

definition parse_exponent :: "string \<Rightarrow> int option" where
  "parse_exponent s =
     (case split_sign s of
        (neg, ds) \<Rightarrow>
          if digitpart ds
          then Some (if neg then - digits_val ds else digits_val ds)
          else None)"

definition is_exp_mark :: "char \<Rightarrow> bool" where
  "is_exp_mark c = (c = CHR ''e'' \<or> c = CHR ''E'')"

definition scale10 :: "real \<Rightarrow> int \<Rightarrow> real" where
  "scale10 x k = (if 0 \<le> k then x * 10 ^ nat k else x / 10 ^ nat (- k))"

text \<open>The decimal number that a string without sign denotes, before rounding.\<close>

definition parse_decimal :: "string \<Rightarrow> real option" where
  "parse_decimal u =
     (case parse_number (takeWhile (\<lambda>c. \<not> is_exp_mark c) u) of
        None \<Rightarrow> None
      | Some m \<Rightarrow>
          (case dropWhile (\<lambda>c. \<not> is_exp_mark c) u of
             [] \<Rightarrow> Some m
           | _ # ex \<Rightarrow>
               (case parse_exponent ex of
                  None \<Rightarrow> None
                | Some k \<Rightarrow> Some (scale10 m k))))"

definition parse_unsigned :: "string \<Rightarrow> pyfloat option" where
  "parse_unsigned u =
     (if lower u = ''inf'' \<or> lower u = ''infinity'' then Some PosInf
      else if lower u = ''nan'' then Some NaN
      else map_option round_b64 (parse_decimal u))"

definition float_of_str :: "string \<Rightarrow> pyfloat option" where
  "float_of_str s =
     (case split_sign (float_strip s) of
        (neg, u) \<Rightarrow> map_option (\<lambda>x. if neg then negate x else x) (parse_unsigned u))"

text \<open>\<^verbatim>\<open>float(amount)\<close>: \<open>None\<close> is the exception (\<^verbatim>\<open>TypeError\<close> or \<^verbatim>\<open>ValueError\<close>).\<close>

fun float_value :: "pyval \<Rightarrow> pyfloat option" where
  "float_value PyNone = None"
| "float_value (PyNum x) = Some (Finite x)"
| "float_value (PyStr s) = float_of_str s"

text \<open>The value of \<^verbatim>\<open>float(amount)\<close> when it is a finite float.\<close>

definition py_float :: "pyval \<Rightarrow> real option" where
  "py_float amount = (case float_value amount of Some (Finite x) \<Rightarrow> Some x | _ \<Rightarrow> None)"

text \<open>\<^verbatim>\<open>x or ""\<close> for a code that is \<^verbatim>\<open>None\<close> or a string.\<close>

fun or_empty :: "string option \<Rightarrow> string" where
  "or_empty None = []"
| "or_empty (Some s) = s"

subsection \<open>JSON documents\<close>

text \<open>
  The body that \<^verbatim>\<open>r.json()\<close> returns is a JSON object; the values of its fields that
  the code looks at are \<^verbatim>\<open>null\<close>, a string or an object of numbers (a rate table,
  which Python holds as a \<^verbatim>\<open>dict\<close>). An object is the list of its fields, each key
  once; lookup is \<^const>\<open>map_of\<close>, and the object is empty when the list is.
\<close>

type_synonym rate_table = "(string \<times> real) list"

datatype jval = JNull | JStr string | JObj rate_table

type_synonym json = "(string \<times> jval) list"

text \<open>Truth value of a Python object, as \<^verbatim>\<open>_cache["rates"]\<close> is tested.\<close>

fun truthy :: "jval \<Rightarrow> bool" where
  "truthy JNull = False"
| "truthy (JStr s) = (s \<noteq> [])"
| "truthy (JObj m) = (m \<noteq> [])"

text \<open>\<^verbatim>\<open>d.get(k)\<close> and \<^verbatim>\<open>d.keys()\<close>: only a \<^verbatim>\<open>dict\<close> has these methods.\<close>

fun dict_get :: "jval \<Rightarrow> string \<Rightarrow> exn + real option" where
  "dict_get (JObj m) k = Inr (map_of m k)"
| "dict_get _ k = Inl AttributeError"

fun dict_keys :: "jval \<Rightarrow> exn + string list" where
  "dict_keys (JObj m) = Inr (map fst m)"
| "dict_keys _ = Inl AttributeError"

subsection \<open>State and environment\<close>

definition PRIMARY_BASE :: string where
  "PRIMARY_BASE = ''https://cdn.jsdelivr.net/npm/@fawazahmed0/currency-api@latest/v1/currencies''"

definition FALLBACK_BASE :: string where
  "FALLBACK_BASE = ''https://latest.currency-api.pages.dev/v1/currencies''"

definition CACHE_TTL_SECS :: real where
  "CACHE_TTL_SECS = 5 * 60"

text \<open>The dictionary \<^verbatim>\<open>_cache\<close>, with its three keys.\<close>

record cache_slot =
  ts :: real
  date :: jval
  rates :: jval

text \<open>
  The state of the process: the cache slot, and the URLs passed to \<^verbatim>\<open>requests.get\<close> so
  far, oldest first.
\<close>

record world =
  cache :: cache_slot
  requests :: "string list"

text \<open>\<^verbatim>\<open>_cache = {"ts": 0, "date": None, "rates": {}}\<close> and no request made.\<close>

definition initial_world :: world where
  "initial_world = \<lparr>cache = \<lparr>ts = 0, date = JNull, rates = JObj []\<rparr>, requests = []\<rparr>"

text \<open>
  The network answers the \<open>n\<close>-th request of the process (counted from 0) for a URL with
  a JSON object, or not at all: \<open>None\<close> stands for every way in which
  \<^verbatim>\<open>_try_fetch\<close> raises or returns something that is not a JSON object, on which the
  field accesses of \<^verbatim>\<open>_fetch_base_rates\<close> raise in turn.
\<close>

type_synonym network = "nat \<Rightarrow> string \<Rightarrow> json option"

subsection \<open>Fetching\<close>

definition try_fetch :: "network \<Rightarrow> string \<Rightarrow> world \<Rightarrow> json option \<times> world" where
  "try_fetch net url w =
     (net (length (requests w)) url, w\<lparr>requests := requests w @ [url]\<rparr>)"

definition endpoint :: "string \<Rightarrow> string \<Rightarrow> string" where
  "endpoint root_url base = root_url @ ''/'' @ base @ ''.json''"

text \<open>
  The loop of \<^verbatim>\<open>_fetch_base_rates\<close> over the roots still to try: an attempt that
  raises, or whose document lacks one of the two fields, moves on to the next root;
  when no root is left the function raises \<^verbatim>\<open>RuntimeError\<close>.
\<close>

fun fetch_from :: "network \<Rightarrow> string \<Rightarrow> string list \<Rightarrow> world \<Rightarrow> (exn + jval \<times> jval) \<times> world" where
  "fetch_from net base [] w = (Inl RuntimeError, w)"
| "fetch_from net base (root_url # roots) w =
     (case try_fetch net (endpoint root_url base) w of
        (None, w') \<Rightarrow> fetch_from net base roots w'
      | (Some data, w') \<Rightarrow>
          (case (map_of data ''date'', map_of data base) of
             (Some d, Some m) \<Rightarrow> (Inr (d, m), w')
           | _ \<Rightarrow> fetch_from net base roots w'))"

definition fetch_base_rates :: "network \<Rightarrow> string \<Rightarrow> world \<Rightarrow> (exn + jval \<times> jval) \<times> world" where
  "fetch_base_rates net base_code w =
     fetch_from net (lower base_code) [PRIMARY_BASE, FALLBACK_BASE] w"

definition get_usd_rates :: "network \<Rightarrow> real \<Rightarrow> bool \<Rightarrow> world \<Rightarrow> (exn + jval \<times> jval) \<times> world" where
  "get_usd_rates net now force_refresh w =
     (if \<not> force_refresh \<and> truthy (rates (cache w)) \<and> now - ts (cache w) < CACHE_TTL_SECS
      then (Inr (date (cache w), rates (cache w)), w)
      else
        (case fetch_base_rates net ''usd'' w of
           (Inl e, w') \<Rightarrow> (Inl e, w')
         | (Inr (d, m), w') \<Rightarrow>
             (Inr (d, m), w'\<lparr>cache := \<lparr>ts = now, date = d, rates = m\<rparr>\<rparr>)))"

subsection \<open>The list of codes\<close>

definition popular :: "string list" where
  "popular = [''USD'', ''EUR'', ''GBP'', ''PKR'', ''INR'', ''AED'', ''SAR'', ''USDT'', ''CNY'', ''JPY'']"

definition available_codes :: "network \<Rightarrow> real \<Rightarrow> world \<Rightarrow> (exn + string list) \<times> world" where
  "available_codes net now w =
     (case get_usd_rates net now True w of
        (Inl e, w') \<Rightarrow> (Inl e, w')
      | (Inr (_, usd), w') \<Rightarrow>
          (case dict_keys usd of
             Inl e \<Rightarrow> (Inl e, w')
           | Inr ks \<Rightarrow>
               (let codes = set (map upper ks) \<union> {''USD''};
                    rest = sorted_list_of_set {c \<in> codes. c \<notin> set popular};
                    ordered = filter (\<lambda>c. c \<in> codes) popular @ rest
                in (Inr ordered, w'))))"

subsection \<open>Conversion\<close>

text \<open>
  The two strings that \<^verbatim>\<open>convert\<close> returns, one constructor for each text of the
  source, carrying the values that the text is formatted from:
  \<^item> \<open>Blank\<close> is the empty string and \<open>Amount res to\<close> the amount with the target code,
    when the amount is finite; \<open>InfAmount to\<close>, \<open>NegInfAmount to\<close> and \<open>NanAmount to\<close>
    are the texts \<^verbatim>\<open>inf\<close>, \<^verbatim>\<open>-inf\<close> and \<^verbatim>\<open>nan\<close> with the target code;
  \<^item> \<open>InvalidAmount\<close>, \<open>NegativeAmount\<close> and \<open>MissingCurrency\<close> are the three fixed
    messages, \<open>PairUnavailable from to\<close> the message naming the pair;
  \<^item> \<open>DirectRate from rate to date\<close> and \<open>CrossRate from rate to date\<close> are the lines
    of a direct and of a cross rate.
\<close>

datatype result_text =
    Blank
  | Amount real string
  | InfAmount string
  | NegInfAmount string
  | NanAmount string

datatype info_text =
    InvalidAmount
  | NegativeAmount
  | MissingCurrency
  | PairUnavailable string string
  | DirectRate string real string jval
  | CrossRate string real string jval

text \<open>The first string of a successful conversion, for the amount \<open>res\<close> and a code.\<close>

fun amount_text :: "pyfloat \<Rightarrow> string \<Rightarrow> result_text" where
  "amount_text (Finite x) code = Amount x code"
| "amount_text PosInf code = InfAmount code"
| "amount_text NegInf code = NegInfAmount code"
| "amount_text NaN code = NanAmount code"

text \<open>
  \<^verbatim>\<open>1.0 if code == "usd" else usd.get(code)\<close>: the table is only asked when the code
  is not \<^verbatim>\<open>usd\<close>.
\<close>

definition usd_rate :: "jval \<Rightarrow> string \<Rightarrow> exn + real option" where
  "usd_rate usd code = (if code = ''usd'' then Inr (Some 1) else dict_get usd code)"

text \<open>
  Lines 67 to 75: the direct fetch with the first code as base. Every exception raised
  between \<^verbatim>\<open>try\<close> and \<^verbatim>\<open>except\<close> ends in the message that the pair is not available.
  Here and below both codes are strings, since their normal forms are not empty.
\<close>

definition direct_convert ::
  "network \<Rightarrow> pyfloat \<Rightarrow> string \<Rightarrow> string \<Rightarrow> string \<Rightarrow> string \<Rightarrow> world
     \<Rightarrow> (result_text \<times> info_text) \<times> world" where
  "direct_convert net amt a b from_code to_code w =
     (case fetch_base_rates net a w of
        (Inr (d_date, d_map), w') \<Rightarrow>
          (case dict_get d_map b of
             Inr (Some direct) \<Rightarrow>
               ((amount_text (times_rate amt direct) (upper to_code),
                 DirectRate (upper from_code) direct (upper to_code) d_date), w')
           | _ \<Rightarrow> ((Blank, PairUnavailable (upper from_code) (upper to_code)), w'))
      | (Inl e, w') \<Rightarrow> ((Blank, PairUnavailable (upper from_code) (upper to_code)), w'))"

definition convert ::
  "network \<Rightarrow> real \<Rightarrow> pyval \<Rightarrow> string option \<Rightarrow> string option \<Rightarrow> world
     \<Rightarrow> (exn + result_text \<times> info_text) \<times> world" where
  "convert net now amount from_code to_code w =
     (case float_value amount of
        None \<Rightarrow> (Inr (Blank, InvalidAmount), w)
      | Some amt \<Rightarrow>
          if is_negative amt then (Inr (Blank, NegativeAmount), w)
          else
            (let a = lower (strip (or_empty from_code));
                 b = lower (strip (or_empty to_code))
             in if a = [] \<or> b = [] then (Inr (Blank, MissingCurrency), w)
                else
                  (case get_usd_rates net now False w of
                     (Inl e, w') \<Rightarrow> (Inl e, w')
                   | (Inr (d, usd), w') \<Rightarrow>
                       (case usd_rate usd a of
                          Inl e \<Rightarrow> (Inl e, w')
                        | Inr r_from \<Rightarrow>
                            (case usd_rate usd b of
                               Inl e \<Rightarrow> (Inl e, w')
                             | Inr r_to \<Rightarrow>
                                 (case (r_from, r_to) of
                                    (Some rf, Some rt) \<Rightarrow>
                                      if rf = 0 then (Inl ZeroDivisionError, w')
                                      else
                                        (Inr (amount_text (times_rate amt (rt / rf))
                                                (upper (or_empty to_code)),
                                              CrossRate (upper (or_empty from_code)) (rt / rf)
                                                (upper (or_empty to_code)) d), w')
                                  | _ \<Rightarrow>
                                      (case direct_convert net amt a b
                                              (or_empty from_code) (or_empty to_code) w' of
                                         (out, w'') \<Rightarrow> (Inr out, w''))))))))"

subsection \<open>The specification's reading of one fetch attempt\<close>

text \<open>
  In the words of the specification: a response must contain a \<^verbatim>\<open>date\<close> field and a
  field named after the lower-cased base code; it then yields the two values, and the
  absence of either, like any failure of the request, is a failed attempt.
\<close>

definition attempt_result :: "string \<Rightarrow> json option \<Rightarrow> (jval \<times> jval) option" where
  "attempt_result base r =
     (case r of
        None \<Rightarrow> None
      | Some data \<Rightarrow>
          (case map_of data ''date'' of
             None \<Rightarrow> None
           | Some d \<Rightarrow> (case map_of data base of None \<Rightarrow> None | Some m \<Rightarrow> Some (d, m))))"

subsection \<open>Reference inputs\<close>

text \<open>
  A cache filled at second 1000 with the table of the specification's example, a
  network on which every request fails, and one on which the primary endpoint of
  \<^verbatim>\<open>usd\<close> fails, its fallback answers, and the primary endpoint of \<^verbatim>\<open>xau\<close> answers.
\<close>

definition example_world :: world where
  "example_world =
     \<lparr>cache = \<lparr>ts = 1000, date = JStr ''2024-01-01'',
               rates = JObj [(''pkr'', 278.1), (''eur'', 0.9)]\<rparr>,
      requests = []\<rparr>"

definition offline :: network where
  "offline n url = None"

definition usd_doc :: json where
  "usd_doc = [(''date'', JStr ''2024-01-01''),
              (''usd'', JObj [(''pkr'', 278.1), (''eur'', 0.9), (''usd'', 1)])]"

definition xau_doc :: json where
  "xau_doc = [(''date'', JStr ''2024-01-02''), (''xau'', JObj [(''pkr'', 570000)])]"

definition example_net :: network where
  "example_net n url =
     (if url = endpoint FALLBACK_BASE ''usd'' then Some usd_doc
      else if url = endpoint PRIMARY_BASE ''xau'' then Some xau_doc
      else None)"

text \<open>A network whose every answer is a document with an empty \<^verbatim>\<open>usd\<close> table.\<close>

definition empty_table_net :: network where
  "empty_table_net n url = Some [(''date'', JStr ''2024-01-01''), (''usd'', JObj [])]"

text \<open>
  The states that \<^verbatim>\<open>_get_usd_rates\<close> leaves behind in the examples below: after the
  first fetch over \<open>example_net\<close> at second 1000, and after one and two fetches over
  \<open>empty_table_net\<close>.
\<close>

definition fetched_world :: world where
  "fetched_world =
     \<lparr>cache = \<lparr>ts = 1000, date = JStr ''2024-01-01'',
               rates = JObj [(''pkr'', 278.1), (''eur'', 0.9), (''usd'', 1)]\<rparr>,
      requests = [endpoint PRIMARY_BASE ''usd'', endpoint FALLBACK_BASE ''usd'']\<rparr>"

definition empty_fetched_world :: world where
  "empty_fetched_world =
     \<lparr>cache = \<lparr>ts = 1000, date = JStr ''2024-01-01'', rates = JObj []\<rparr>,
      requests = [endpoint PRIMARY_BASE ''usd'']\<rparr>"

definition refetched_world :: world where
  "refetched_world =
     \<lparr>cache = \<lparr>ts = 1001, date = JStr ''2024-01-01'', rates = JObj []\<rparr>,
      requests = [endpoint PRIMARY_BASE ''usd'', endpoint PRIMARY_BASE ''usd'']\<rparr>"


section \<open>Properties\<close>

subsection \<open>Auxiliary facts\<close>

text \<open>The finite view of \<^verbatim>\<open>float(amount)\<close>.\<close>

lemma py_float_PyNum [simp]: "py_float (PyNum x) = Some x"
  by (simp add: py_float_def)

lemma float_value_finite: "py_float amount = Some amt \<Longrightarrow> float_value amount = Some (Finite amt)"
  by (simp add: py_float_def split: option.splits pyfloat.splits)

text \<open>Below the smallest normal float the exponent stays at -1022.\<close>

lemma pow2_powi: "pow2 k = 2 powi k"
  by (simp add: pow2_def power_int_def power_one_over inverse_eq_divide)

lemma pow2_mono: "i \<le> j \<Longrightarrow> pow2 i \<le> pow2 j"
  by (simp add: pow2_powi power_int_increasing)

lemma exp_down_floor:
  assumes "a < pow2 (- 1022)" and "- 1022 \<le> e"
  shows "exp_down a e = - 1022"
  using assms
proof (induction a e rule: exp_down.induct)
  case (1 a e)
  show ?case
  proof (cases "- 1022 < e")
    case True
    have "a < pow2 e"
      using "1.prems"(1) pow2_mono [of "- 1022" e] "1.prems"(2) by linarith
    with True 1 show ?thesis
      by (subst exp_down.simps) simp
  next
    case False
    with "1.prems"(2) have "e = - 1022" by simp
    then show ?thesis
      by (subst exp_down.simps) simp
  qed
qed

lemma round_b64_tiny: "round_b64 (scale10 1 (- 400)) = Finite 0"
proof -
  have unscaled: "scale10 1 (- 400) = 1 / 10 ^ 400"
    by (simp add: scale10_def)
  have small: "(1 :: real) / 10 ^ 400 < pow2 (- 1022)"
    by (simp add: pow2_def)
  have "b64_exponent (1 / 10 ^ 400) = - 1022"
    using exp_down_floor [OF small, of "- 1"] by (simp add: b64_exponent_def)
  then have "round_b64 (1 / 10 ^ 400) = Finite 0"
    by (simp add: round_b64_def round_half_even_def pow2_def Let_def)
  then show ?thesis
    unfolding unscaled .
qed

text \<open>What \<^verbatim>\<open>float\<close> makes of some strings.\<close>

lemma float_abc: "float_of_str ''abc'' = None"
  by (simp add: float_of_str_def float_strip_def is_float_blank_def split_sign_def
      parse_unsigned_def lower_def lower_char_def parse_decimal_def parse_number_def
      is_exp_mark_def is_digit_def)

lemma float_nan: "float_of_str ''nan'' = Some NaN"
  by (simp add: float_of_str_def float_strip_def is_float_blank_def split_sign_def
      parse_unsigned_def lower_def lower_char_def)

lemma float_neg_inf: "float_of_str ''-inf'' = Some NegInf"
  by (simp add: float_of_str_def float_strip_def is_float_blank_def split_sign_def
      parse_unsigned_def lower_def lower_char_def)

lemma float_separators: "float_of_str [CHR 0x1C, CHR ''1'', CHR ''2'', CHR 0x1F] = None"
  by (simp add: float_of_str_def float_strip_def is_float_blank_def split_sign_def
      parse_unsigned_def lower_def lower_char_def parse_decimal_def parse_number_def
      is_exp_mark_def is_digit_def)

lemma float_underflow: "float_of_str ''-1e-400'' = Some (Finite 0)"
  by (simp add: float_of_str_def float_strip_def is_float_blank_def split_sign_def
      parse_unsigned_def lower_def lower_char_def parse_decimal_def parse_number_def
      is_exp_mark_def is_digit_def parse_exponent_def digits_val_def round_b64_tiny)

lemma float_neg: "float_of_str ''-2.5'' = Some (Finite (- 2.5))"
  by (simp add: float_of_str_def float_strip_def is_float_blank_def split_sign_def
      parse_unsigned_def lower_def lower_char_def parse_decimal_def parse_number_def
      is_exp_mark_def is_digit_def digits_val_def round_b64_def b64_exponent_def
      exp_up.simps pow2_def round_half_even_def Let_def)

lemma norm_EUR: "lower (strip ''EUR'') = ''eur''"
  by (simp add: lower_def lower_char_def strip_def is_space_def)

lemma norm_PKR: "lower (strip ''PKR'') = ''pkr''"
  by (simp add: lower_def lower_char_def strip_def is_space_def)

lemma norm_USD: "lower (strip ''USD'') = ''usd''"
  by (simp add: lower_def lower_char_def strip_def is_space_def)

lemma norm_XAU: "lower (strip ''XAU'') = ''xau''"
  by (simp add: lower_def lower_char_def strip_def is_space_def)

text \<open>
  One run of the loop of \<^verbatim>\<open>_fetch_base_rates\<close> touches nothing but the list of
  requests, to which it adds one URL for each root it tries.
\<close>

lemma fetch_from_frame:
  "\<exists>us. snd (fetch_from net base roots w) = w\<lparr>requests := requests w @ us\<rparr>
      \<and> length us \<le> length roots \<and> (roots \<noteq> [] \<longrightarrow> us \<noteq> [])"
proof (induction roots arbitrary: w)
  case Nil
  then show ?case by simp
next
  case (Cons r roots)
  let ?w' = "w\<lparr>requests := requests w @ [endpoint r base]\<rparr>"
  from Cons.IH [of ?w'] obtain us where
    us: "snd (fetch_from net base roots ?w') = ?w'\<lparr>requests := requests ?w' @ us\<rparr>"
      "length us \<le> length roots" by blast
  have next_step:
    "snd (fetch_from net base roots ?w') = w\<lparr>requests := requests w @ (endpoint r base # us)\<rparr>"
    using us(1) by simp
  show ?case
  proof (cases "attempt_result base (net (length (requests w)) (endpoint r base))")
    case None
    then have "fetch_from net base (r # roots) w = fetch_from net base roots ?w'"
      by (auto simp: try_fetch_def attempt_result_def split: option.splits)
    with next_step us(2) show ?thesis
      by (intro exI [of _ "endpoint r base # us"]) simp
  next
    case (Some p)
    then have "snd (fetch_from net base (r # roots) w) = ?w'"
      by (auto simp: try_fetch_def attempt_result_def split: option.splits)
    then show ?thesis
      by (intro exI [of _ "[endpoint r base]"]) simp
  qed
qed

lemma fetch_base_rates_unfold:
  "fetch_base_rates net base_code w =
     (case attempt_result (lower base_code)
             (net (length (requests w)) (endpoint PRIMARY_BASE (lower base_code))) of
        Some r \<Rightarrow> (Inr r, w\<lparr>requests := requests w @ [endpoint PRIMARY_BASE (lower base_code)]\<rparr>)
      | None \<Rightarrow>
          (case attempt_result (lower base_code)
                  (net (Suc (length (requests w))) (endpoint FALLBACK_BASE (lower base_code))) of
             Some r \<Rightarrow>
               (Inr r, w\<lparr>requests := requests w @
                  [endpoint PRIMARY_BASE (lower base_code), endpoint FALLBACK_BASE (lower base_code)]\<rparr>)
           | None \<Rightarrow>
               (Inl RuntimeError, w\<lparr>requests := requests w @
                  [endpoint PRIMARY_BASE (lower base_code), endpoint FALLBACK_BASE (lower base_code)]\<rparr>)))"
  by (simp add: fetch_base_rates_def try_fetch_def attempt_result_def split: option.splits)

lemma get_usd_rates_hit:
  "\<not> force_refresh \<Longrightarrow> truthy (rates (cache w)) \<Longrightarrow> now - ts (cache w) < CACHE_TTL_SECS \<Longrightarrow>
     get_usd_rates net now force_refresh w = (Inr (date (cache w), rates (cache w)), w)"
  by (simp add: get_usd_rates_def)

lemma get_usd_rates_miss:
  "force_refresh \<or> \<not> truthy (rates (cache w)) \<or> CACHE_TTL_SECS \<le> now - ts (cache w) \<Longrightarrow>
     get_usd_rates net now force_refresh w =
       (case fetch_base_rates net ''usd'' w of
          (Inl e, w') \<Rightarrow> (Inl e, w')
        | (Inr (d, m), w') \<Rightarrow> (Inr (d, m), w'\<lparr>cache := \<lparr>ts = now, date = d, rates = m\<rparr>\<rparr>))"
  by (auto simp: get_usd_rates_def)


text \<open>\<^verbatim>\<open>convert\<close> once its three validation checks have passed.\<close>

lemma convert_validated:
  assumes "py_float amount = Some amt" and "0 \<le> amt"
    and "lower (strip f) \<noteq> []" and "lower (strip t) \<noteq> []"
  shows "convert net now amount (Some f) (Some t) w =
     (case get_usd_rates net now False w of
        (Inl e, w') \<Rightarrow> (Inl e, w')
      | (Inr (d, usd), w') \<Rightarrow>
          (case usd_rate usd (lower (strip f)) of
             Inl e \<Rightarrow> (Inl e, w')
           | Inr r_from \<Rightarrow>
               (case usd_rate usd (lower (strip t)) of
                  Inl e \<Rightarrow> (Inl e, w')
                | Inr r_to \<Rightarrow>
                    (case (r_from, r_to) of
                       (Some rf, Some rt) \<Rightarrow>
                         if rf = 0 then (Inl ZeroDivisionError, w')
                         else (Inr (Amount (amt * (rt / rf)) (upper t),
                                    CrossRate (upper f) (rt / rf) (upper t) d), w')
                     | _ \<Rightarrow>
                         (case direct_convert net (Finite amt) (lower (strip f)) (lower (strip t))
                                 f t w' of
                            (out, w'') \<Rightarrow> (Inr out, w''))))))"
  using assms(2-4) float_value_finite [OF assms(1)]
  by (simp add: convert_def Let_def split: prod.split sum.split option.split)

lemma CACHE_TTL_300: "CACHE_TTL_SECS = 300"
  by (simp add: CACHE_TTL_SECS_def)

lemma lower_Nil_iff: "lower s = [] \<longleftrightarrow> s = []"
  by (simp add: lower_def)

lemma lower_char_idem: "lower_char (lower_char c) = lower_char c"
  by (simp add: lower_char_def)

lemma lower_idem: "lower (lower s) = lower s"
  by (simp add: lower_def lower_char_idem)

lemma lower_usd: "lower ''usd'' = ''usd''"
  by (simp add: lower_def lower_char_def)

lemma lower_xau: "lower ''xau'' = ''xau''"
  by (simp add: lower_def lower_char_def)


lemma endpoints_differ:
  "endpoint PRIMARY_BASE ''usd'' \<noteq> endpoint FALLBACK_BASE ''usd''"
  "endpoint PRIMARY_BASE ''usd'' \<noteq> endpoint PRIMARY_BASE ''xau''"
  "endpoint FALLBACK_BASE ''usd'' \<noteq> endpoint PRIMARY_BASE ''xau''"
  by (simp_all add: endpoint_def PRIMARY_BASE_def FALLBACK_BASE_def)

lemma fetch_base_rates_requests:
  "snd (fetch_base_rates net base_code w) =
     w\<lparr>requests := requests w @ [endpoint PRIMARY_BASE (lower base_code)]\<rparr>
   \<or> snd (fetch_base_rates net base_code w) =
     w\<lparr>requests := requests w @
        [endpoint PRIMARY_BASE (lower base_code), endpoint FALLBACK_BASE (lower base_code)]\<rparr>"
  by (simp add: fetch_base_rates_unfold split: option.split)

lemma direct_convert_world:
  "snd (direct_convert net amt a b f t w) = snd (fetch_base_rates net a w)"
  by (simp add: direct_convert_def split: prod.split sum.split option.split)

lemma direct_convert_info:
  "direct_convert net x a b f t w = ((res, info), w') \<Longrightarrow>
     info \<noteq> InvalidAmount \<and> info \<noteq> NegativeAmount \<and> info \<noteq> MissingCurrency"
  by (auto simp: direct_convert_def split: prod.splits sum.splits option.splits)


lemma convert_fallback:
  assumes "py_float amount = Some amt" and "0 \<le> amt"
    and "lower (strip f) \<noteq> []" and "lower (strip t) \<noteq> []"
    and "get_usd_rates net now False w = (Inr (d, usd), w1)"
    and "usd_rate usd (lower (strip f)) = Inr r_from"
    and "usd_rate usd (lower (strip t)) = Inr r_to"
    and "r_from = None \<or> r_to = None"
  shows "convert net now amount (Some f) (Some t) w =
     (Inr (fst (direct_convert net (Finite amt) (lower (strip f)) (lower (strip t)) f t w1)),
      snd (direct_convert net (Finite amt) (lower (strip f)) (lower (strip t)) f t w1))"
  using assms(5-8)
  by (auto simp: convert_validated [OF assms(1-4)] split: prod.split option.split)

text \<open>The reference inputs at work.\<close>

lemma example_hit:
  "now - 1000 < 300 \<Longrightarrow> get_usd_rates net now False example_world =
      (Inr (JStr ''2024-01-01'', JObj [(''pkr'', 278.1), (''eur'', 0.9)]), example_world)"
  by (simp add: get_usd_rates_def example_world_def CACHE_TTL_SECS_def)

lemma fetch_xau:
  "fetch_base_rates example_net ''xau'' w =
     (Inr (JStr ''2024-01-02'', JObj [(''pkr'', 570000)]),
      w\<lparr>requests := requests w @ [endpoint PRIMARY_BASE ''xau'']\<rparr>)"
  using endpoints_differ
  by (simp add: fetch_base_rates_unfold lower_xau example_net_def attempt_result_def xau_doc_def)

lemma fetch_usd:
  "fetch_base_rates example_net ''usd'' initial_world =
     (Inr (JStr ''2024-01-01'', JObj [(''pkr'', 278.1), (''eur'', 0.9), (''usd'', 1)]),
      initial_world\<lparr>requests := [endpoint PRIMARY_BASE ''usd'', endpoint FALLBACK_BASE ''usd'']\<rparr>)"
  using endpoints_differ
  by (simp add: initial_world_def fetch_base_rates_unfold lower_usd
      example_net_def attempt_result_def usd_doc_def)

lemma first_fetch:
  "get_usd_rates example_net 1000 False initial_world =
     (Inr (JStr ''2024-01-01'', JObj [(''pkr'', 278.1), (''eur'', 0.9), (''usd'', 1)]),
      fetched_world)"
  using endpoints_differ
  by (simp add: get_usd_rates_def initial_world_def fetch_base_rates_unfold lower_usd
      example_net_def attempt_result_def usd_doc_def fetched_world_def)

subsection \<open>Cross rates\<close>



subsection \<open>Exceptions that leave \<^verbatim>\<open>convert\<close>\<close>

text \<open>
  Claim C2 says that \<^verbatim>\<open>convert\<close> never raises, also when both endpoints fail while the
  USD table is fetched. The call of \<^verbatim>\<open>_get_usd_rates\<close> on line 61 stands outside every
  \<^verbatim>\<open>try\<close>: with an empty cache and no endpoint answering, \<^verbatim>\<open>convert(1, "USD", "PKR")\<close>
  raises the \<^verbatim>\<open>RuntimeError\<close> of \<^verbatim>\<open>_fetch_base_rates\<close>, after one request to each
  endpoint.
\<close>

theorem convert_raises_when_offline:
  "convert offline 1000 (PyNum 1) (Some ''USD'') (Some ''PKR'') initial_world =
     (Inl RuntimeError,
      initial_world\<lparr>requests := [endpoint PRIMARY_BASE ''usd'', endpoint FALLBACK_BASE ''usd'']\<rparr>)"
proof -
  have "get_usd_rates offline 1000 False initial_world =
      (Inl RuntimeError,
       initial_world\<lparr>requests := [endpoint PRIMARY_BASE ''usd'', endpoint FALLBACK_BASE ''usd'']\<rparr>)"
    by (simp add: get_usd_rates_def initial_world_def fetch_base_rates_unfold lower_usd
        offline_def attempt_result_def)
  then show ?thesis
    by (simp add: convert_def Let_def norm_USD norm_PKR)
qed

subsection \<open>The cache and its time to live\<close>

text \<open>
  Claim C3, as amended. The time to live is 300 seconds. A call with
  \<^verbatim>\<open>force_refresh\<close> set, or on a cache whose table is empty, or 300 seconds or more
  after the cache was written, fetches base \<^verbatim>\<open>usd\<close>; when the fetch succeeds the whole
  slot is overwritten with the clock reading, the date and the table, and when it fails
  the exception leaves the slot alone. If such a call returns a table that is not
  empty, every later call without \<^verbatim>\<open>force_refresh\<close> that reads the clock less than
  300 seconds after it returns the same date and table and changes nothing: the list of
  requests stays as the one fetch left it, whatever the network would answer.
\<close>

theorem get_usd_rates_ttl:
  assumes "force_refresh \<or> \<not> truthy (rates (cache w)) \<or> CACHE_TTL_SECS \<le> now - ts (cache w)"
  shows "CACHE_TTL_SECS = 300
    \<and> get_usd_rates net now force_refresh w =
         (case fetch_base_rates net ''usd'' w of
            (Inl e, w') \<Rightarrow> (Inl e, w')
          | (Inr (d, m), w') \<Rightarrow> (Inr (d, m), w'\<lparr>cache := \<lparr>ts = now, date = d, rates = m\<rparr>\<rparr>))
    \<and> (\<forall>d m w1 later net'.
          get_usd_rates net now force_refresh w = (Inr (d, m), w1) \<and> truthy m
            \<and> later - now < CACHE_TTL_SECS
          \<longrightarrow> get_usd_rates net' later False w1 = (Inr (d, m), w1))"
proof (intro conjI allI impI)
  show "CACHE_TTL_SECS = 300" by (rule CACHE_TTL_300)
next
  show "get_usd_rates net now force_refresh w =
         (case fetch_base_rates net ''usd'' w of
            (Inl e, w') \<Rightarrow> (Inl e, w')
          | (Inr (d, m), w') \<Rightarrow> (Inr (d, m), w'\<lparr>cache := \<lparr>ts = now, date = d, rates = m\<rparr>\<rparr>))"
    using assms by (rule get_usd_rates_miss)
next
  fix d m w1 later net'
  assume h: "get_usd_rates net now force_refresh w = (Inr (d, m), w1) \<and> truthy m
            \<and> later - now < CACHE_TTL_SECS"
  then have "cache w1 = \<lparr>ts = now, date = d, rates = m\<rparr>"
    using assms
    by (auto simp: get_usd_rates_miss split: prod.splits sum.splits)
  with h show "get_usd_rates net' later False w1 = (Inr (d, m), w1)"
    by (simp add: get_usd_rates_def)
qed

text \<open>
  From the initial state the first call fetches (the primary endpoint fails, the
  fallback answers); a call 299 seconds later is served from the cache although the
  network is down; a call 300 seconds later fetches again, and fails.
\<close>

theorem get_usd_rates_ttl_witness:
  "get_usd_rates example_net 1000 False initial_world =
     (Inr (JStr ''2024-01-01'', JObj [(''pkr'', 278.1), (''eur'', 0.9), (''usd'', 1)]),
      fetched_world)
   \<and> get_usd_rates offline 1299 False fetched_world =
     (Inr (JStr ''2024-01-01'', JObj [(''pkr'', 278.1), (''eur'', 0.9), (''usd'', 1)]),
      fetched_world)
   \<and> get_usd_rates offline 1300 False fetched_world =
     (Inl RuntimeError,
      fetched_world\<lparr>requests := requests fetched_world @
         [endpoint PRIMARY_BASE ''usd'', endpoint FALLBACK_BASE ''usd'']\<rparr>)"
proof -
  have empty: "False \<or> \<not> truthy (rates (cache initial_world))
      \<or> CACHE_TTL_SECS \<le> 1000 - ts (cache initial_world)"
    by (simp add: initial_world_def)
  have later: "get_usd_rates offline 1299 False fetched_world =
     (Inr (JStr ''2024-01-01'', JObj [(''pkr'', 278.1), (''eur'', 0.9), (''usd'', 1)]),
      fetched_world)"
    using get_usd_rates_ttl [OF empty, where net = example_net] first_fetch
    by (simp add: CACHE_TTL_300)
  have stale: "False \<or> \<not> truthy (rates (cache fetched_world))
      \<or> CACHE_TTL_SECS \<le> 1300 - ts (cache fetched_world)"
    by (simp add: fetched_world_def CACHE_TTL_300)
  have "get_usd_rates offline 1300 False fetched_world =
     (Inl RuntimeError,
      fetched_world\<lparr>requests := requests fetched_world @
         [endpoint PRIMARY_BASE ''usd'', endpoint FALLBACK_BASE ''usd'']\<rparr>)"
    using get_usd_rates_ttl [OF stale, where net = offline]
    by (simp add: fetch_base_rates_unfold lower_usd offline_def attempt_result_def)
  with first_fetch later show ?thesis by simp
qed

text \<open>
  Claim C3 as it is written fails when the fetched table is empty: the fetch succeeds
  and the slot is overwritten, but \<^verbatim>\<open>_cache["rates"]\<close> is then false, so the call one
  second later sends a second request.
\<close>

theorem get_usd_rates_empty_table_counterexample:
  "get_usd_rates empty_table_net 1000 False initial_world =
     (Inr (JStr ''2024-01-01'', JObj []), empty_fetched_world)
   \<and> get_usd_rates empty_table_net 1001 False empty_fetched_world =
     (Inr (JStr ''2024-01-01'', JObj []), refetched_world)
   \<and> requests refetched_world \<noteq> requests empty_fetched_world"
  by (simp add: get_usd_rates_def initial_world_def fetch_base_rates_unfold lower_usd
      empty_table_net_def attempt_result_def empty_fetched_world_def refetched_world_def)

subsection \<open>The direct fetch\<close>



text \<open>
  Claim C9. On the fallback path of \<^verbatim>\<open>convert\<close> (the hypotheses of C4) the cache slot
  that \<^verbatim>\<open>convert\<close> leaves is the one that step 3 left, and when the cache was fresh at
  the call it is the one \<^verbatim>\<open>convert\<close> found. The direct fetch only sends requests, to
  the primary endpoint for \<open>a\<close> and, if that attempt fails, to the fallback: every
  call on the fallback path sends them again.
\<close>

theorem convert_fallback_keeps_cache:
  assumes "py_float amount = Some amt" and "0 \<le> amt"
    and "a = lower (strip f)" and "b = lower (strip t)" and "a \<noteq> []" and "b \<noteq> []"
    and "get_usd_rates net now False w = (Inr (d, JObj usd), w1)"
    and "(a \<noteq> ''usd'' \<and> map_of usd a = None) \<or> (b \<noteq> ''usd'' \<and> map_of usd b = None)"
  shows "cache (snd (convert net now amount (Some f) (Some t) w)) = cache w1
    \<and> (truthy (rates (cache w)) \<and> now - ts (cache w) < CACHE_TTL_SECS \<longrightarrow>
          cache (snd (convert net now amount (Some f) (Some t) w)) = cache w)
    \<and> (requests (snd (convert net now amount (Some f) (Some t) w)) =
          requests w1 @ [endpoint PRIMARY_BASE a]
        \<or> requests (snd (convert net now amount (Some f) (Some t) w)) =
          requests w1 @ [endpoint PRIMARY_BASE a, endpoint FALLBACK_BASE a])"
proof -
  have resolved:
    "usd_rate (JObj usd) (lower (strip f)) = Inr (if a = ''usd'' then Some 1 else map_of usd a)"
    "usd_rate (JObj usd) (lower (strip t)) = Inr (if b = ''usd'' then Some 1 else map_of usd b)"
    using assms(3,4) by (simp_all add: usd_rate_def)
  have missing: "(if a = ''usd'' then Some 1 else map_of usd a) = None
      \<or> (if b = ''usd'' then Some 1 else map_of usd b) = None"
    using assms(8) by auto
  have "convert net now amount (Some f) (Some t) w =
     (Inr (fst (direct_convert net (Finite amt) a b f t w1)),
      snd (direct_convert net (Finite amt) a b f t w1))"
    using convert_fallback [OF assms(1,2) _ _ assms(7) resolved missing] assms(3-6) by simp
  then have after:
    "snd (convert net now amount (Some f) (Some t) w) = snd (fetch_base_rates net a w1)"
    by (simp add: direct_convert_world)
  have same: "lower a = a"
    using assms(3) by (simp add: lower_idem)
  have hit: "truthy (rates (cache w)) \<and> now - ts (cache w) < CACHE_TTL_SECS \<longrightarrow> w1 = w"
    using assms(7) by (auto simp: get_usd_rates_hit)
  from fetch_base_rates_requests [of net a w1] show ?thesis
    unfolding after same using hit by auto
qed

text \<open>
  Two lookups of a pair that is not available, one second apart: the cache stays as it
  was and each lookup sends its own request.
\<close>

theorem convert_fallback_keeps_cache_witness:
  "cache (snd (convert example_net 1060 (PyNum 5) (Some ''XAU'') (Some ''EUR'') example_world))
     = cache example_world
   \<and> requests (snd (convert example_net 1060 (PyNum 5) (Some ''XAU'') (Some ''EUR'') example_world))
     = [endpoint PRIMARY_BASE ''xau'']
   \<and> requests (snd (convert example_net 1061 (PyNum 5) (Some ''XAU'') (Some ''EUR'')
        (example_world\<lparr>requests := [endpoint PRIMARY_BASE ''xau'']\<rparr>)))
     = [endpoint PRIMARY_BASE ''xau'', endpoint PRIMARY_BASE ''xau'']"
proof -
  let ?again = "example_world\<lparr>requests := [endpoint PRIMARY_BASE ''xau'']\<rparr>"
  have kept: "cache (snd (convert example_net 1060 (PyNum 5) (Some ''XAU'') (Some ''EUR'')
      example_world)) = cache example_world"
    using convert_fallback_keeps_cache [of "PyNum 5" 5 "''xau''" "''XAU''" "''eur''" "''EUR''"
        example_net 1060 example_world "JStr ''2024-01-01''" "[(''pkr'', 278.1), (''eur'', 0.9)]"
        example_world]
      example_hit [of 1060 example_net]
    by (simp add: norm_XAU norm_EUR)
  have hit_again: "get_usd_rates example_net 1061 False ?again =
      (Inr (JStr ''2024-01-01'', JObj [(''pkr'', 278.1), (''eur'', 0.9)]), ?again)"
    by (simp add: get_usd_rates_def example_world_def CACHE_TTL_SECS_def)
  have first: "requests (snd (convert example_net 1060 (PyNum 5) (Some ''XAU'') (Some ''EUR'')
      example_world)) = [endpoint PRIMARY_BASE ''xau'']"
    using example_hit [of 1060 example_net]
    by (simp add: convert_def Let_def norm_XAU norm_EUR usd_rate_def direct_convert_def
        fetch_xau example_world_def)
  have second: "requests (snd (convert example_net 1061 (PyNum 5) (Some ''XAU'') (Some ''EUR'')
      ?again)) = [endpoint PRIMARY_BASE ''xau'', endpoint PRIMARY_BASE ''xau'']"
    using hit_again
    by (simp add: convert_def Let_def norm_XAU norm_EUR usd_rate_def direct_convert_def
        fetch_xau)
  from kept first second show ?thesis by simp
qed

subsection \<open>The two endpoints\<close>

text \<open>
  Claim C5. \<^verbatim>\<open>_fetch_base_rates\<close> requests the primary endpoint for the lower-cased
  base code first. If that attempt yields a document with both fields, in the sense of
  \<open>attempt_result\<close>, their values are returned after this one request. Otherwise
  the fallback endpoint is requested with the same path, and its attempt decides:
  the values of the two fields, or \<^verbatim>\<open>RuntimeError\<close>. So the function fails exactly
  when both attempts fail, and a failed attempt never ends the function early. The
  URLs are the root, a slash, the lower-cased code and \<^verbatim>\<open>.json\<close>.
\<close>

theorem fetch_base_rates_two_tier:
  fixes net :: network and base_code :: string and w :: world
  defines "b \<equiv> lower base_code"
    and "n \<equiv> length (requests w)"
  defines "u1 \<equiv> endpoint PRIMARY_BASE b"
    and "u2 \<equiv> endpoint FALLBACK_BASE b"
  shows "fetch_base_rates net base_code w =
           (case attempt_result b (net n u1) of
              Some r \<Rightarrow> (Inr r, w\<lparr>requests := requests w @ [u1]\<rparr>)
            | None \<Rightarrow>
                (case attempt_result b (net (Suc n) u2) of
                   Some r \<Rightarrow> (Inr r, w\<lparr>requests := requests w @ [u1, u2]\<rparr>)
                 | None \<Rightarrow> (Inl RuntimeError, w\<lparr>requests := requests w @ [u1, u2]\<rparr>)))
         \<and> ((fst (fetch_base_rates net base_code w) = Inl RuntimeError)
              = (attempt_result b (net n u1) = None \<and> attempt_result b (net (Suc n) u2) = None))
         \<and> u1 = PRIMARY_BASE @ ''/'' @ lower base_code @ ''.json''
         \<and> u2 = FALLBACK_BASE @ ''/'' @ lower base_code @ ''.json''"
  unfolding b_def n_def u1_def u2_def
  by (simp add: fetch_base_rates_unfold endpoint_def split: option.split)

text \<open>
  For \<^verbatim>\<open>USD\<close> from the initial state: the fallback answers after the primary
  endpoint failed, and with no endpoint answering the function raises after both
  requests.
\<close>

theorem fetch_base_rates_two_tier_witness:
  "fetch_base_rates example_net ''USD'' initial_world =
     (Inr (JStr ''2024-01-01'', JObj [(''pkr'', 278.1), (''eur'', 0.9), (''usd'', 1)]),
      initial_world\<lparr>requests := [endpoint PRIMARY_BASE ''usd'', endpoint FALLBACK_BASE ''usd'']\<rparr>)
   \<and> fetch_base_rates offline ''USD'' initial_world =
     (Inl RuntimeError,
      initial_world\<lparr>requests := [endpoint PRIMARY_BASE ''usd'', endpoint FALLBACK_BASE ''usd'']\<rparr>)"
proof -
  have low: "lower ''USD'' = ''usd''"
    by (simp add: lower_def lower_char_def)
  show ?thesis
    using fetch_base_rates_two_tier [of example_net "''USD''" initial_world]
      fetch_base_rates_two_tier [of offline "''USD''" initial_world] endpoints_differ
    by (simp add: low example_net_def offline_def attempt_result_def usd_doc_def
        initial_world_def endpoint_def)
qed

subsection \<open>Validation\<close>

text \<open>
  Claim C6. The three checks of \<^verbatim>\<open>convert\<close> run in order, and each returns its message
  in the state in which \<^verbatim>\<open>convert\<close> was called, so before any request: an amount on
  which \<^verbatim>\<open>float\<close> raises gives the message for an invalid amount, whatever the codes
  are; a float below zero gives the message for a negative amount, whatever the codes
  are; otherwise a code that is empty after trimming gives the message for a missing
  currency. When all three checks pass, \<^verbatim>\<open>convert\<close> returns none of the three messages.
\<close>

theorem convert_validation_order:
  "(float_value amount = None \<longrightarrow>
      convert net now amount from_code to_code w = (Inr (Blank, InvalidAmount), w))
   \<and> (\<forall>x. float_value amount = Some x \<and> is_negative x \<longrightarrow>
      convert net now amount from_code to_code w = (Inr (Blank, NegativeAmount), w))
   \<and> (\<forall>x. float_value amount = Some x \<and> \<not> is_negative x
         \<and> (strip (or_empty from_code) = [] \<or> strip (or_empty to_code) = []) \<longrightarrow>
      convert net now amount from_code to_code w = (Inr (Blank, MissingCurrency), w))
   \<and> (\<forall>x res info. float_value amount = Some x \<and> \<not> is_negative x
         \<and> strip (or_empty from_code) \<noteq> [] \<and> strip (or_empty to_code) \<noteq> []
         \<and> fst (convert net now amount from_code to_code w) = Inr (res, info) \<longrightarrow>
      info \<noteq> InvalidAmount \<and> info \<noteq> NegativeAmount \<and> info \<noteq> MissingCurrency)"
proof (intro conjI allI impI)
  assume "float_value amount = None"
  then show "convert net now amount from_code to_code w = (Inr (Blank, InvalidAmount), w)"
    by (simp add: convert_def)
next
  fix x assume "float_value amount = Some x \<and> is_negative x"
  then show "convert net now amount from_code to_code w = (Inr (Blank, NegativeAmount), w)"
    by (simp add: convert_def)
next
  fix x assume "float_value amount = Some x \<and> \<not> is_negative x
         \<and> (strip (or_empty from_code) = [] \<or> strip (or_empty to_code) = [])"
  then show "convert net now amount from_code to_code w = (Inr (Blank, MissingCurrency), w)"
    by (auto simp: convert_def Let_def lower_Nil_iff)
next
  fix x res info
  assume passed: "float_value amount = Some x \<and> \<not> is_negative x
         \<and> strip (or_empty from_code) \<noteq> [] \<and> strip (or_empty to_code) \<noteq> []
         \<and> fst (convert net now amount from_code to_code w) = Inr (res, info)"
  then have "info \<noteq> InvalidAmount \<and> info \<noteq> NegativeAmount \<and> info \<noteq> MissingCurrency"
    by (auto simp: convert_def Let_def lower_Nil_iff
        split: prod.splits sum.splits option.splits if_splits
        dest: direct_convert_info)
  then show "info \<noteq> InvalidAmount" and "info \<noteq> NegativeAmount" and "info \<noteq> MissingCurrency"
    by simp_all
qed

text \<open>
  The three examples of the specification, \<^verbatim>\<open>convert(-1, "USD", "PKR")\<close>,
  \<^verbatim>\<open>convert("abc", "USD", "PKR")\<close> and \<^verbatim>\<open>convert(1, "", "PKR")\<close>; two calls in which
  the amount and the codes are all wrong, where the check of the amount speaks first;
  and amounts at the edge of the first two checks: \<^verbatim>\<open>-inf\<close> is negative, a number
  between two separator characters (codes 28 and 31) is not read, and \<^verbatim>\<open>nan\<close> and
  \<^verbatim>\<open>-1e-400\<close>, which \<^verbatim>\<open>float\<close> rounds to zero, pass both checks: with a missing code
  they reach the third check, and with both codes \<^verbatim>\<open>nan\<close> is converted.
\<close>

theorem convert_validation_order_witness:
  "convert offline 1000 (PyNum (- 1)) (Some ''USD'') (Some ''PKR'') initial_world =
     (Inr (Blank, NegativeAmount), initial_world)
   \<and> convert offline 1000 (PyStr ''abc'') (Some ''USD'') (Some ''PKR'') initial_world =
     (Inr (Blank, InvalidAmount), initial_world)
   \<and> convert offline 1000 (PyNum 1) (Some []) (Some ''PKR'') initial_world =
     (Inr (Blank, MissingCurrency), initial_world)
   \<and> convert offline 1000 (PyStr ''abc'') (Some []) None initial_world =
     (Inr (Blank, InvalidAmount), initial_world)
   \<and> convert offline 1000 (PyStr ''-2.5'') (Some []) None initial_world =
     (Inr (Blank, NegativeAmount), initial_world)
   \<and> convert offline 1000 (PyStr ''-inf'') (Some ''USD'') (Some ''PKR'') initial_world =
     (Inr (Blank, NegativeAmount), initial_world)
   \<and> convert offline 1000 (PyStr [CHR 0x1C, CHR ''1'', CHR ''2'', CHR 0x1F]) (Some [])
        (Some ''PKR'') initial_world =
     (Inr (Blank, InvalidAmount), initial_world)
   \<and> convert offline 1000 (PyStr ''nan'') (Some []) (Some ''PKR'') initial_world =
     (Inr (Blank, MissingCurrency), initial_world)
   \<and> convert offline 1000 (PyStr ''-1e-400'') (Some []) (Some ''PKR'') initial_world =
     (Inr (Blank, MissingCurrency), initial_world)
   \<and> convert offline 1060 (PyStr ''nan'') (Some ''USD'') (Some ''USD'') example_world =
     (Inr (NanAmount ''USD'', CrossRate ''USD'' 1 ''USD'' (JStr ''2024-01-01'')),
      example_world)"
proof -
  have blank: "strip (or_empty (Some [])) = []"
    by (simp add: strip_def)
  have checks:
    "convert offline 1000 (PyNum (- 1)) (Some ''USD'') (Some ''PKR'') initial_world =
       (Inr (Blank, NegativeAmount), initial_world)"
    "convert offline 1000 (PyStr ''abc'') (Some ''USD'') (Some ''PKR'') initial_world =
       (Inr (Blank, InvalidAmount), initial_world)"
    "convert offline 1000 (PyNum 1) (Some []) (Some ''PKR'') initial_world =
       (Inr (Blank, MissingCurrency), initial_world)"
    "convert offline 1000 (PyStr ''abc'') (Some []) None initial_world =
       (Inr (Blank, InvalidAmount), initial_world)"
    "convert offline 1000 (PyStr ''-2.5'') (Some []) None initial_world =
       (Inr (Blank, NegativeAmount), initial_world)"
    using convert_validation_order
        [of "PyNum (- 1)" offline 1000 "Some ''USD''" "Some ''PKR''" initial_world]
      convert_validation_order
        [of "PyStr ''abc''" offline 1000 "Some ''USD''" "Some ''PKR''" initial_world]
      convert_validation_order
        [of "PyNum 1" offline 1000 "Some []" "Some ''PKR''" initial_world]
      convert_validation_order
        [of "PyStr ''abc''" offline 1000 "Some []" None initial_world]
      convert_validation_order
        [of "PyStr ''-2.5''" offline 1000 "Some []" None initial_world]
      float_abc float_neg blank
    by simp_all
  have edges:
    "convert offline 1000 (PyStr ''-inf'') (Some ''USD'') (Some ''PKR'') initial_world =
       (Inr (Blank, NegativeAmount), initial_world)"
    "convert offline 1000 (PyStr [CHR 0x1C, CHR ''1'', CHR ''2'', CHR 0x1F]) (Some [])
        (Some ''PKR'') initial_world =
       (Inr (Blank, InvalidAmount), initial_world)"
    "convert offline 1000 (PyStr ''nan'') (Some []) (Some ''PKR'') initial_world =
       (Inr (Blank, MissingCurrency), initial_world)"
    "convert offline 1000 (PyStr ''-1e-400'') (Some []) (Some ''PKR'') initial_world =
       (Inr (Blank, MissingCurrency), initial_world)"
    using convert_validation_order
        [of "PyStr ''-inf''" offline 1000 "Some ''USD''" "Some ''PKR''" initial_world]
      convert_validation_order
        [of "PyStr [CHR 0x1C, CHR ''1'', CHR ''2'', CHR 0x1F]" offline 1000 "Some []"
          "Some ''PKR''" initial_world]
      convert_validation_order
        [of "PyStr ''nan''" offline 1000 "Some []" "Some ''PKR''" initial_world]
      convert_validation_order
        [of "PyStr ''-1e-400''" offline 1000 "Some []" "Some ''PKR''" initial_world]
      float_neg_inf float_separators float_nan float_underflow blank
    by simp_all
  have converted:
    "convert offline 1060 (PyStr ''nan'') (Some ''USD'') (Some ''USD'') example_world =
       (Inr (NanAmount ''USD'', CrossRate ''USD'' 1 ''USD'' (JStr ''2024-01-01'')),
        example_world)"
    using example_hit [of 1060 offline]
    by (simp add: convert_def Let_def float_nan norm_USD usd_rate_def upper_def upper_char_def)
  from checks edges converted show ?thesis
    by simp
qed

text \<open>
  Claim C10. For a valid amount, a code that is \<^verbatim>\<open>None\<close> gives the message for a
  missing currency, in the state in which \<^verbatim>\<open>convert\<close> was called, and no exception:
  \<^verbatim>\<open>None\<close> is replaced by the empty string before trimming, so \<^verbatim>\<open>convert\<close> treats it
  as it treats the empty string.
\<close>

theorem convert_none_code:
  assumes "py_float amount = Some amt" and "0 \<le> amt"
    and "from_code = None \<or> to_code = None"
  shows "convert net now amount from_code to_code w = (Inr (Blank, MissingCurrency), w)
    \<and> convert net now amount None to_code w = convert net now amount (Some []) to_code w
    \<and> convert net now amount from_code None w = convert net now amount from_code (Some []) w"
  using assms(2,3) float_value_finite [OF assms(1)]
  by (auto simp: convert_def Let_def strip_def lower_def)

theorem convert_none_code_witness:
  "convert offline 1000 (PyNum 1) None (Some ''PKR'') initial_world =
     (Inr (Blank, MissingCurrency), initial_world)
   \<and> convert offline 1000 (PyNum 1) (Some ''USD'') None initial_world =
     (Inr (Blank, MissingCurrency), initial_world)"
  using convert_none_code [of "PyNum 1" 1 None "Some ''PKR''" offline 1000 initial_world]
    convert_none_code [of "PyNum 1" 1 "Some ''USD''" None offline 1000 initial_world]
  by simp

subsection \<open>The order of the codes\<close>

text \<open>
  Claim C7. \<^verbatim>\<open>available_codes\<close> fetches base \<^verbatim>\<open>usd\<close> whatever the cache holds. When
  the fetch returns a table, the cache is overwritten with it and the clock reading,
  and the list returned holds each upper-cased key of the table and \<^verbatim>\<open>USD\<close> once and
  nothing else: first the popular codes that are among them, in the order of the
  list \<open>popular\<close>, then all the others in ascending lexicographic order.
\<close>

theorem available_codes_order:
  assumes "fetch_base_rates net ''usd'' w = (Inr (d, JObj m), w')"
  shows "\<exists>ordered rest.
      available_codes net now w =
        (Inr ordered, w'\<lparr>cache := \<lparr>ts = now, date = d, rates = JObj m\<rparr>\<rparr>)
      \<and> set ordered = upper ` fst ` set m \<union> {''USD''}
      \<and> distinct ordered
      \<and> ordered = filter (\<lambda>c. c \<in> upper ` fst ` set m \<union> {''USD''}) popular @ rest
      \<and> sorted rest \<and> set rest = (upper ` fst ` set m \<union> {''USD''}) - set popular
      \<and> popular = [''USD'', ''EUR'', ''GBP'', ''PKR'', ''INR'', ''AED'', ''SAR'', ''USDT'',
           ''CNY'', ''JPY'']"
proof -
  let ?codes = "set (map upper (map fst m)) \<union> {''USD''}"
  let ?rest = "sorted_list_of_set {c \<in> ?codes. c \<notin> set popular}"
  let ?ordered = "filter (\<lambda>c. c \<in> ?codes) popular @ ?rest"
  have refresh: "get_usd_rates net now True w =
      (Inr (d, JObj m), w'\<lparr>cache := \<lparr>ts = now, date = d, rates = JObj m\<rparr>\<rparr>)"
    using assms by (simp add: get_usd_rates_def)
  have run: "available_codes net now w =
      (Inr ?ordered, w'\<lparr>cache := \<lparr>ts = now, date = d, rates = JObj m\<rparr>\<rparr>)"
    by (simp add: available_codes_def refresh Let_def)
  have fin: "finite {c \<in> ?codes. c \<notin> set popular}"
    by simp
  have popular_distinct: "distinct popular"
    by (simp add: popular_def)
  have elems: "set ?ordered = ?codes"
    using fin by auto
  have dist: "distinct ?ordered"
    using fin popular_distinct by auto
  have rest: "sorted ?rest" "set ?rest = ?codes - set popular"
    using fin by auto
  have listed: "popular = [''USD'', ''EUR'', ''GBP'', ''PKR'', ''INR'', ''AED'', ''SAR'', ''USDT'',
      ''CNY'', ''JPY'']"
    by (simp add: popular_def)
  from run elems dist rest listed show ?thesis
    by (intro exI [of _ ?ordered] exI [of _ ?rest]) (simp add: image_image)
qed

text \<open>
  The specification's example: the fetched keys \<^verbatim>\<open>pkr\<close>, \<^verbatim>\<open>eur\<close> and \<^verbatim>\<open>usd\<close> come
  back as \<^verbatim>\<open>USD\<close>, \<^verbatim>\<open>EUR\<close>, \<^verbatim>\<open>PKR\<close>.
\<close>

theorem available_codes_order_witness:
  "available_codes example_net 1000 initial_world = (Inr [''USD'', ''EUR'', ''PKR''], fetched_world)"
proof -
  have codes: "upper ` fst ` set [(''pkr'', 278.1 :: real), (''eur'', 0.9), (''usd'', 1)] \<union> {''USD''}
      = {''PKR'', ''EUR'', ''USD''}"
    by (auto simp: upper_def upper_char_def)
  from available_codes_order [OF fetch_usd, of 1000] obtain ordered rest where
    run: "available_codes example_net 1000 initial_world =
        (Inr ordered,
         initial_world\<lparr>requests := [endpoint PRIMARY_BASE ''usd'', endpoint FALLBACK_BASE ''usd''],
           cache := \<lparr>ts = 1000, date = JStr ''2024-01-01'',
             rates = JObj [(''pkr'', 278.1), (''eur'', 0.9), (''usd'', 1)]\<rparr>\<rparr>)"
    and ordered: "ordered = filter (\<lambda>c. c \<in> {''PKR'', ''EUR'', ''USD''}) popular @ rest"
    and rest: "set rest = {''PKR'', ''EUR'', ''USD''} - set popular"
    unfolding codes by auto
  from rest have "rest = []"
    by (simp add: popular_def)
  with ordered have "ordered = [''USD'', ''EUR'', ''PKR'']"
    by (simp add: popular_def)
  with run show ?thesis
    by (simp add: fetched_world_def initial_world_def)
qed

end
